theory Spec2Isabelle
  imports Complex_Main "HOL-Library.Word"
begin

section \<open>JavaScript values used by the services\<close>

text \<open>
  A JavaScript string is a sequence of UTF-16 code units; a \<open>Buffer\<close> is a sequence of
  bytes. String literals of the source are ASCII and are written through \<open>lit\<close>.
\<close>

type_synonym jsstring = "nat list"

type_synonym bytes = "8 word list"

type_synonym vector = "rat list"

definition lit :: "string \<Rightarrow> jsstring" where
  "lit s = map of_char s"

text \<open>
  \<open>String.prototype.trim\<close> removes WhiteSpace and LineTerminator code units from both
  ends (ECMAScript: TAB, VT, FF, ZWNBSP, the Unicode space separators, LF, CR, LS, PS).
\<close>

definition isWhiteSpace :: "nat \<Rightarrow> bool" where
  "isWhiteSpace c \<longleftrightarrow>
     c \<in> {9, 10, 11, 12, 13, 32, 160, 5760, 8232, 8233, 8239, 8287, 12288, 65279}
     \<or> (8192 \<le> c \<and> c \<le> 8202)"

definition trim :: "jsstring \<Rightarrow> jsstring" where
  "trim s = rev (dropWhile isWhiteSpace (rev (dropWhile isWhiteSpace s)))"

text \<open>\<open>xs.slice(-n)\<close>: the last \<open>n\<close> elements, all of them when there are fewer.\<close>

definition slice_last :: "nat \<Rightarrow> 'a list \<Rightarrow> 'a list" where
  "slice_last n xs = drop (length xs - n) xs"

text \<open>\<open>xs.join(sep)\<close>.\<close>

fun join :: "jsstring \<Rightarrow> jsstring list \<Rightarrow> jsstring" where
  "join sep [] = []"
| "join sep [x] = x"
| "join sep (x # y # ys) = x @ sep @ join sep (y # ys)"

text \<open>
  A thrown value, as far as the catch blocks inspect it: whether it is an instance of
  \<open>Error\<close>, its \<open>code\<close> property when it has one, and its \<open>message\<close>.
\<close>

datatype thrown = Thrown (thrown_isError: bool) (thrown_code: "nat option")
  (thrown_message: "jsstring option")

definition newError :: "jsstring \<Rightarrow> thrown" where
  "newError m = Thrown True None (Some m)"

text \<open>\<open>error instanceof Error ? error.message : "Unknown error"\<close>.\<close>

definition errorDetail :: "thrown \<Rightarrow> jsstring" where
  "errorDetail e =
     (if thrown_isError e then (case thrown_message e of Some m \<Rightarrow> m | None \<Rightarrow> [])
      else lit ''Unknown error'')"

text \<open>Truthiness of an optional string field: present and not empty.\<close>

definition truthy :: "jsstring option \<Rightarrow> bool" where
  "truthy v = (case v of None \<Rightarrow> False | Some s \<Rightarrow> s \<noteq> [])"

section \<open>services/gemini.ts\<close>

text \<open>
  The provider call \<open>chat.sendMessage(fullPrompt)\<close> settles after some number of
  milliseconds, either resolved with the text of the response or rejected.
\<close>

datatype send_outcome = Resolved nat jsstring | Rejected nat thrown

definition systemPrompt :: jsstring where
  "systemPrompt =
     lit ''You'' @ [8218, 196, 244] @
     lit ''re an AI friend chatting naturally with the user'' @ [8218, 196, 238] @
     lit ''keep it friendly, match their tone, sound casual and human, and always end with a question to keep the conversation going; aim for a 8-10 second reply time, give or take. Ask a trailing question always.''"

definition fullPrompt :: "jsstring list \<Rightarrow> jsstring \<Rightarrow> jsstring" where
  "fullPrompt ctx userMessage =
     (let relevantContext = slice_last 5 ctx
      in systemPrompt @ [10, 10] @ lit ''Context: '' @ join [10] relevantContext
         @ [10, 10] @ lit ''User: '' @ userMessage)"

definition fallbackResponses :: "jsstring list" where
  "fallbackResponses =
     [lit ''I understand what you're saying.'',
      lit ''That's interesting, tell me more.'',
      lit ''I see your point.'',
      lit ''Thanks for sharing that with me.'',
      lit ''I'm listening.'']"

text \<open>
  \<open>if (response.includes('.')) response = response.split('.')[0] + '.'\<close>;
  the code unit of the period is 46.
\<close>

definition singleSentence :: "jsstring \<Rightarrow> jsstring" where
  "singleSentence response =
     (if 46 \<in> set response then takeWhile (\<lambda>c. c \<noteq> 46) response @ [46] else response)"

text \<open>
  The timer \<open>setTimeout(() => controller.abort(), 15000)\<close> runs its callback unless
  the provider call resolves within 15000 ms and clears it; a rejected call leaves it
  running.
\<close>

definition abortTimerFires :: "send_outcome \<Rightarrow> bool" where
  "abortTimerFires outcome =
     (case outcome of Resolved ms text \<Rightarrow> 15000 \<le> ms | Rejected ms e \<Rightarrow> True)"

text \<open>
  \<open>generateResponse\<close>. The AbortController's signal is handed to no call, so the timer's
  \<open>abort()\<close> has no observer: the function waits for \<open>sendMessage\<close> to settle and its
  result depends on how the call settled only, not on when. \<open>rnd\<close> is the value of
  \<open>Math.random()\<close>, a number in the interval from 0 up to but excluding 1.
\<close>

definition generateResponse ::
  "(jsstring \<Rightarrow> send_outcome) \<Rightarrow> rat \<Rightarrow> jsstring list \<Rightarrow> jsstring \<Rightarrow> jsstring" where
  "generateResponse send rnd ctx userMessage =
     (case send (fullPrompt ctx userMessage) of
        Resolved ms text \<Rightarrow> singleSentence (trim text)
      | Rejected ms e \<Rightarrow>
          fallbackResponses ! nat \<lfloor>rnd * of_nat (length fallbackResponses)\<rfloor>)"

text \<open>
  \<open>getEmbedding\<close>: empty for blank text, and empty when \<open>embedContent\<close> fails
  (\<open>None\<close>); the text sent is cut to 1000 code units.
\<close>

definition getEmbedding :: "(jsstring \<Rightarrow> vector option) \<Rightarrow> jsstring \<Rightarrow> vector" where
  "getEmbedding embedContent text =
     (if text = [] \<or> length (trim text) = 0 then []
      else case embedContent (take 1000 text) of Some values \<Rightarrow> values | None \<Rightarrow> [])"

section \<open>services/stt.ts\<close>

text \<open>
  \<open>client.recognize\<close> either throws or answers with \<open>response.results\<close>, which may be
  absent; each result is represented by \<open>alternatives?.[0]?.transcript\<close>.
\<close>

datatype recognize_outcome =
  RecognizeOk "jsstring option list option" | RecognizeThrows thrown

text \<open>The message of the \<open>Error\<close> that the catch block of \<open>transcribeAudio\<close> throws.\<close>

definition sttRethrow :: "thrown \<Rightarrow> jsstring" where
  "sttRethrow e =
     (case thrown_code e of
        Some c \<Rightarrow>
          if c = 16 then lit ''Google Cloud authentication failed. Check your credentials.''
          else if c = 3 then lit ''Invalid audio format or configuration.''
          else if c = 8 then lit ''Google Cloud quota exceeded.''
          else lit ''Google Cloud error: '' @
               (if truthy (thrown_message e) then (case thrown_message e of Some m \<Rightarrow> m | None \<Rightarrow> [])
                else lit ''Unknown error'')
      | None \<Rightarrow> lit ''Failed to transcribe audio'')"

text \<open>\<open>transcribeAudio\<close>: \<open>Inl m\<close> is a thrown \<open>Error\<close> with message \<open>m\<close>.\<close>

definition transcribeAudio :: "(bytes \<Rightarrow> recognize_outcome) \<Rightarrow> bytes \<Rightarrow> jsstring + jsstring" where
  "transcribeAudio recognize audioBuffer =
     (if length audioBuffer = 0 then Inl (sttRethrow (newError (lit ''Audio buffer is empty'')))
      else if length audioBuffer < 1000 then Inr []
      else case recognize audioBuffer of
             RecognizeThrows e \<Rightarrow> Inl (sttRethrow e)
           | RecognizeOk None \<Rightarrow> Inr []
           | RecognizeOk (Some results) \<Rightarrow>
               if results = [] then Inr []
               else Inr (trim (join (lit '' '')
                      (map (\<lambda>result. case result of Some t \<Rightarrow> t | None \<Rightarrow> []) results))))"

section \<open>utils/redis.util.ts: the short-term chat log\<close>

datatype role = user | ai

type_synonym chat = "role \<times> jsstring"

type_synonym redis = "jsstring \<Rightarrow> chat list"

definition roleName :: "role \<Rightarrow> jsstring" where
  "roleName r = (case r of user \<Rightarrow> lit ''user'' | ai \<Rightarrow> lit ''ai'')"

definition chatKey :: "jsstring \<Rightarrow> jsstring" where
  "chatKey userId = lit ''chat:'' @ userId"

text \<open>How the two Redis commands of one \<open>pushChat\<close> call end.\<close>

datatype redis_fault = NoFault | RpushFails thrown | LtrimFails thrown

text \<open>
  \<open>pushChat\<close>: \<open>rpush\<close> then \<open>ltrim key -100 -1\<close>. The first component is the value
  the call rejects with, if it does.
\<close>

definition pushChat ::
  "redis_fault \<Rightarrow> jsstring \<Rightarrow> role \<Rightarrow> jsstring \<Rightarrow> redis \<Rightarrow> thrown option \<times> redis" where
  "pushChat fault userId r message db =
     (let key = chatKey userId; pushed = db key @ [(r, message)]
      in case fault of
           RpushFails e \<Rightarrow> (Some e, db)
         | LtrimFails e \<Rightarrow> (Some e, db(key := pushed))
         | NoFault \<Rightarrow> (None, db(key := slice_last 100 pushed)))"

definition getRecentChats :: "thrown option \<Rightarrow> jsstring \<Rightarrow> redis \<Rightarrow> thrown + chat list" where
  "getRecentChats fault userId db =
     (case fault of Some e \<Rightarrow> Inl e | None \<Rightarrow> Inr (db (chatKey userId)))"

section \<open>services/pinecone.ts\<close>

text \<open>
  \<open>index.namespace(userId).query\<close> throws or answers with \<open>res.matches\<close>, which may be
  absent; each match is represented by \<open>metadata?.text\<close> when that is a string.
\<close>

datatype query_outcome = QueryOk "jsstring option list option" | QueryThrows thrown

definition searchMemory ::
  "(jsstring \<Rightarrow> vector \<Rightarrow> query_outcome) \<Rightarrow> jsstring \<Rightarrow> vector \<Rightarrow> thrown + jsstring option list" where
  "searchMemory query userId v =
     (case query userId v of
        QueryThrows e \<Rightarrow> Inl e
      | QueryOk None \<Rightarrow> Inr []
      | QueryOk (Some matches) \<Rightarrow> Inr matches)"

section \<open>services/conversation.ts\<close>

record Session =
  userId :: jsstring
  friendId :: jsstring
  sessionContext :: "jsstring list"

text \<open>
  The module's \<open>sessions\<close> map, keyed by the session id, together with the Redis lists
  of the chat log.
\<close>

record world =
  sessions :: "jsstring \<rightharpoonup> Session"
  redis :: redis

text \<open>
  The collaborators of one call, as black boxes: each provider answers as a function of
  what it is called with; the Redis commands of the call succeed or fail as given.
  \<open>synthesize\<close> is \<open>synthesizeSpeech\<close>, \<open>None\<close> when it rejects.
\<close>

record env =
  recognize :: "bytes \<Rightarrow> recognize_outcome"
  embedContent :: "jsstring \<Rightarrow> vector option"
  query :: "jsstring \<Rightarrow> vector \<Rightarrow> query_outcome"
  chat_sendMessage :: "jsstring \<Rightarrow> send_outcome"
  random :: rat
  synthesize :: "jsstring \<Rightarrow> bytes option"
  readFault :: "thrown option"
  userPushFault :: redis_fault
  aiPushFault :: redis_fault

record turn_result =
  response :: jsstring
  transcript :: jsstring
  audioBuffer :: "bytes option"
  error :: "jsstring option"

definition sessionKey :: "jsstring \<Rightarrow> jsstring \<Rightarrow> jsstring" where
  "sessionKey u f = u @ lit ''-'' @ f"

text \<open>The context that \<open>initializeSession\<close> pre-loads: every entry of the user's chat log.\<close>

definition seedContext :: "thrown option \<Rightarrow> jsstring \<Rightarrow> redis \<Rightarrow> jsstring list" where
  "seedContext fault u db =
     (case getRecentChats fault u db of
        Inr recent \<Rightarrow> map (\<lambda>m. roleName (fst m) @ lit '': '' @ snd m) recent
      | Inl e \<Rightarrow> [])"

definition initializeSession ::
  "thrown option \<Rightarrow> jsstring \<Rightarrow> jsstring \<Rightarrow> world \<Rightarrow> jsstring \<times> world" where
  "initializeSession fault u f w =
     (let sessionId = sessionKey u f;
          ctx = seedContext fault u (redis w)
      in (sessionId,
          w\<lparr>sessions := (sessions w)(sessionId \<mapsto> \<lparr>userId = u, friendId = f, sessionContext = ctx\<rparr>)\<rparr>))"

definition cleanupSession :: "jsstring \<Rightarrow> jsstring \<Rightarrow> world \<Rightarrow> world" where
  "cleanupSession u f w = w\<lparr>sessions := (sessions w)(sessionKey u f := None)\<rparr>"

text \<open>
  The head of \<open>processCompleteAudio\<close>: look the session up and initialize it when there
  is none.
\<close>

definition ensureSession :: "thrown option \<Rightarrow> jsstring \<Rightarrow> jsstring \<Rightarrow> world \<Rightarrow> world" where
  "ensureSession fault u f w =
     (case sessions w (sessionKey u f) of
        None \<Rightarrow> snd (initializeSession fault u f w)
      | Some session \<Rightarrow> w)"

definition didntCatch :: jsstring where
  "didntCatch = lit ''I didn't catch that. Could you please try again?''"

definition errorMessage :: jsstring where
  "errorMessage = lit ''I'm having trouble processing your audio right now. Please try again.''"

text \<open>The object returned from the catch block, for a caught value with detail \<open>d\<close>.\<close>

definition failureResult :: "env \<Rightarrow> jsstring \<Rightarrow> turn_result" where
  "failureResult e d =
     \<lparr>response = errorMessage, transcript = [], audioBuffer = synthesize e errorMessage,
      error = Some d\<rparr>"

text \<open>Step 3, second branch: \<open>searchMemory(userId, []).catch(() => [])\<close>.\<close>

definition recallMemory :: "env \<Rightarrow> jsstring \<Rightarrow> jsstring option list" where
  "recallMemory e u =
     (case searchMemory (query e) u [] of Inl err \<Rightarrow> [] | Inr matches \<Rightarrow> matches)"

text \<open>Step 4: the entries that are strings, in order.\<close>

definition enhancedContext ::
  "jsstring list \<Rightarrow> jsstring option list \<Rightarrow> jsstring \<Rightarrow> jsstring list" where
  "enhancedContext ctx longTermMemory t =
     ctx @ concat (map (\<lambda>v. case v of Some x \<Rightarrow> [x] | None \<Rightarrow> []) longTermMemory)
         @ [lit ''user: '' @ t]"

text \<open>Step 7: the new value of \<open>session.context\<close>.\<close>

definition updatedContext :: "jsstring list \<Rightarrow> jsstring \<Rightarrow> jsstring \<Rightarrow> jsstring list" where
  "updatedContext ctx t reply =
     slice_last 10 (ctx @ [lit ''user: '' @ t, lit ''ai: '' @ reply])"

text \<open>
  \<open>processCompleteAudio\<close>, run from call to return with no other handler in between.
  Reading \<open>session.context\<close> of a missing session throws a TypeError inside the try
  block. The background storage of vectors is started and not awaited; it touches
  neither the result nor the session and is left out.
\<close>

definition processCompleteAudio ::
  "env \<Rightarrow> bytes \<Rightarrow> jsstring \<Rightarrow> jsstring \<Rightarrow> world \<Rightarrow> turn_result \<times> world" where
  "processCompleteAudio e audio u f w0 =
     (let sessionId = sessionKey u f;
          w = ensureSession (readFault e) u f w0
      in case transcribeAudio (recognize e) audio of
           Inl m \<Rightarrow> (failureResult e m, w)
         | Inr t \<Rightarrow>
             if t = [] \<or> length (trim t) = 0 then
               (\<lparr>response = didntCatch, transcript = [],
                 audioBuffer = synthesize e didntCatch, error = None\<rparr>, w)
             else
               (case pushChat (userPushFault e) u user t (redis w) of
                  (Some err, db1) \<Rightarrow> (failureResult e (errorDetail err), w\<lparr>redis := db1\<rparr>)
                | (None, db1) \<Rightarrow>
                    (case sessions w sessionId of
                       None \<Rightarrow>
                         (failureResult e
                            (lit ''Cannot read properties of undefined (reading 'context')''),
                          w\<lparr>redis := db1\<rparr>)
                     | Some session \<Rightarrow>
                         let embedding = getEmbedding (embedContent e) t;
                             longTermMemory = recallMemory e u;
                             aiResponse = generateResponse (chat_sendMessage e) (random e)
                                            (enhancedContext (sessionContext session) longTermMemory t) t;
                             audioResponseBuffer = synthesize e aiResponse;
                             db2 = snd (pushChat (aiPushFault e) u ai aiResponse db1);
                             session' = session\<lparr>sessionContext :=
                                          updatedContext (sessionContext session) t aiResponse\<rparr>
                         in (\<lparr>response = aiResponse, transcript = t,
                               audioBuffer = audioResponseBuffer, error = None\<rparr>,
                             w\<lparr>sessions := (sessions w)(sessionId \<mapsto> session'),
                               redis := db2\<rparr>))))"

text \<open>A turn is completed when it went through step 7 and returned the reply.\<close>

definition completed :: "turn_result \<Rightarrow> bool" where
  "completed r \<longleftrightarrow> error r = None \<and> transcript r \<noteq> []"


text \<open>The recent-turn context of the session of \<open>u\<close> and \<open>f\<close>, empty when there is none.\<close>

definition contextOf :: "world \<Rightarrow> jsstring \<Rightarrow> jsstring \<Rightarrow> jsstring list" where
  "contextOf w u f = (case sessions w (sessionKey u f) of None \<Rightarrow> [] | Some s \<Rightarrow> sessionContext s)"

section \<open>The websocket gateway (setupWebSocket)\<close>

text \<open>
  A connection is identified by a number. The \<open>ClientSession\<close> objects live in a store:
  the gateway's \<open>sessions\<close> map holds references to them, and so does every call of
  \<open>handleCompleteAudio\<close> that is waiting for the pipeline.
\<close>

type_synonym ws = nat

type_synonym ref = nat

record ClientSession =
  client_userId :: jsstring
  client_friendId :: jsstring
  client_sessionId :: "jsstring option"
  isProcessing :: bool

text \<open>
  The outbound frames: error (message, details, timestamp), ready (message, sessionId),
  processing (message), response (text, transcript, audioBuffer, timestamp).
\<close>

datatype frame =
    ErrorResponse jsstring "jsstring option" nat
  | ReadyResponse jsstring "jsstring option"
  | ProcessingResponse jsstring
  | FinalResponse jsstring jsstring "bytes option" nat

text \<open>How the awaited call of \<open>processCompleteAudio\<close> ends.\<close>

datatype pipeline_outcome = Returned turn_result | Threw thrown

text \<open>
  A call of \<open>handleCompleteAudio\<close> suspended at \<open>await processCompleteAudio(...)\<close>: its
  connection, the session object it holds, and the arguments of the pipeline call.
\<close>

record pending =
  pending_ws :: ws
  pending_session :: ref
  pending_audio :: bytes
  pending_userId :: jsstring
  pending_friendId :: jsstring

text \<open>
  The state of the gateway: the store of session objects with its next free reference,
  the \<open>sessions\<close> map, the frames written to the sockets, and the pipeline calls in
  flight.
\<close>

record gateway =
  objects :: "ref \<rightharpoonup> ClientSession"
  fresh :: ref
  ws_sessions :: "ws \<rightharpoonup> ref"
  sent :: "(ws \<times> frame) list"
  inflight :: "pending list"

definition gateway0 :: gateway where
  "gateway0 = \<lparr>objects = Map.empty, fresh = 0, ws_sessions = Map.empty, sent = [], inflight = []\<rparr>"

text \<open>
  \<open>sendMessage\<close>: the frame is written when the socket is open at that moment (and the
  write does not throw); otherwise it is dropped.
\<close>

definition sendMessage :: "bool \<Rightarrow> ws \<Rightarrow> frame \<Rightarrow> gateway \<Rightarrow> gateway" where
  "sendMessage isOpen ws message g = (if isOpen then g\<lparr>sent := sent g @ [(ws, message)]\<rparr> else g)"

text \<open>\<open>session.isProcessing = b\<close> on the object behind a reference.\<close>

definition setProcessing :: "ref \<Rightarrow> bool \<Rightarrow> gateway \<Rightarrow> gateway" where
  "setProcessing r b g =
     (case objects g r of
        None \<Rightarrow> g
      | Some session \<Rightarrow> g\<lparr>objects := (objects g)(r \<mapsto> session\<lparr>isProcessing := b\<rparr>)\<rparr>)"

text \<open>
  \<open>handleInit\<close>, with the user and friend ids of the message (absent when the field is
  missing) and the value that \<open>initializeSession\<close> rejects with, if it does. The handler
  touches the gateway only after that call has settled.
\<close>

definition handleInit ::
  "nat \<Rightarrow> bool \<Rightarrow> ws \<Rightarrow> jsstring option \<Rightarrow> jsstring option \<Rightarrow> thrown option \<Rightarrow> gateway \<Rightarrow> gateway" where
  "handleInit now isOpen ws uid fid initFault g =
     (if \<not> truthy uid \<or> \<not> truthy fid then
        sendMessage isOpen ws (ErrorResponse (lit ''userId and friendId are required'') None now) g
      else
        (case (uid, fid, initFault) of
           (Some u, Some f, None) \<Rightarrow>
             let sessionId = sessionKey u f;
                 r = fresh g;
                 g1 = g\<lparr>objects := (objects g)(r \<mapsto>
                          \<lparr>client_userId = u, client_friendId = f,
                           client_sessionId = Some sessionId, isProcessing = False\<rparr>),
                        fresh := Suc r,
                        ws_sessions := (ws_sessions g)(ws \<mapsto> r)\<rparr>
             in sendMessage isOpen ws
                  (ReadyResponse (lit ''Session initialized and ready to process audio'')
                     (Some sessionId)) g1
         | (_, _, Some e) \<Rightarrow>
             sendMessage isOpen ws
               (ErrorResponse (lit ''Failed to initialize session'') (Some (errorDetail e)) now) g
         | _ \<Rightarrow> g))"

text \<open>
  \<open>handleCompleteAudio\<close> up to \<open>await processCompleteAudio(...)\<close>. The data of the message
  is given by what \<open>Buffer.from(message.data, 'base64')\<close> makes of it: the bytes, or the
  value it throws. The call is suspended with the pipeline invoked only in the last
  branch.
\<close>

definition handleCompleteAudio_begin ::
  "nat \<Rightarrow> bool \<Rightarrow> ws \<Rightarrow> thrown + bytes \<Rightarrow> gateway \<Rightarrow> gateway" where
  "handleCompleteAudio_begin now isOpen ws data g =
     (case ws_sessions g ws of
        None \<Rightarrow>
          sendMessage isOpen ws
            (ErrorResponse (lit ''Session not initialized. Please send init message first.'')
               None now) g
      | Some r \<Rightarrow>
          (case objects g r of
             None \<Rightarrow> g
           | Some session \<Rightarrow>
               if isProcessing session then
                 sendMessage isOpen ws
                   (ErrorResponse
                      (lit ''Already processing audio. Please wait for current request to complete.'')
                      None now) g
               else
                 let g1 = setProcessing r True g;
                     g2 = sendMessage isOpen ws
                            (ProcessingResponse (lit ''Processing your audio...'')) g1
                 in case data of
                      Inl e \<Rightarrow>
                        setProcessing r False
                          (sendMessage isOpen ws
                             (ErrorResponse (lit ''Failed to process audio'')
                                (Some (errorDetail e)) now) g2)
                    | Inr buffer \<Rightarrow>
                        g2\<lparr>inflight := inflight g2 @
                             [\<lparr>pending_ws = ws, pending_session = r,
                               pending_audio = buffer,
                               pending_userId = client_userId session,
                               pending_friendId = client_friendId session\<rparr>]\<rparr>))"

text \<open>
  The rest of \<open>handleCompleteAudio\<close>, once the pipeline call of the suspended handler has
  settled: the frame for the outcome, then the finally block on the session object that
  the handler holds.
\<close>

definition handleCompleteAudio_resume ::
  "nat \<Rightarrow> bool \<Rightarrow> pending \<Rightarrow> pipeline_outcome \<Rightarrow> gateway \<Rightarrow> gateway" where
  "handleCompleteAudio_resume now isOpen p outcome g =
     (let ws = pending_ws p;
          g1 = (case outcome of
                  Returned result \<Rightarrow>
                    if truthy (error result) then
                      sendMessage isOpen ws
                        (ErrorResponse (lit ''Audio processing failed'') (error result) now) g
                    else
                      sendMessage isOpen ws
                        (FinalResponse (response result) (transcript result)
                           (audioBuffer result) now) g
                | Threw e \<Rightarrow>
                    sendMessage isOpen ws
                      (ErrorResponse (lit ''Failed to process audio'')
                         (Some (errorDetail e)) now) g)
      in setProcessing (pending_session p) False g1)"

text \<open>
  \<open>handleDisconnection\<close>: the entry of the connection is deleted from the gateway's map
  (\<open>cleanupSession\<close> acts on the map of the conversation module). A suspended handler
  keeps the session object it holds.
\<close>

definition handleDisconnection :: "ws \<Rightarrow> gateway \<Rightarrow> gateway" where
  "handleDisconnection ws g = g\<lparr>ws_sessions := (ws_sessions g)(ws := None)\<rparr>"

text \<open>
  What happens at the gateway: a message arrives on a connection (an init message, an
  audio message, a message of another type, or one that does not parse), the pipeline
  call of a suspended handler settles, or a connection closes.
\<close>

datatype message =
    Init "jsstring option" "jsstring option" "thrown option"
  | Audio "thrown + bytes"
  | Unknown
  | Unparsable thrown

datatype event = Message ws message | Settled pending pipeline_outcome | Close ws

text \<open>
  One event, with the clock and whether the socket written to is open. Handlers run to
  their next await without interruption.
\<close>

definition step :: "nat \<Rightarrow> bool \<Rightarrow> event \<Rightarrow> gateway \<Rightarrow> gateway" where
  "step now isOpen ev g =
     (case ev of
        Message ws (Init uid fid initFault) \<Rightarrow>
          handleInit now isOpen ws uid fid initFault g
      | Message ws (Audio data) \<Rightarrow> handleCompleteAudio_begin now isOpen ws data g
      | Message ws Unknown \<Rightarrow> g
      | Message ws (Unparsable e) \<Rightarrow>
          sendMessage isOpen ws
            (ErrorResponse (lit ''Invalid message format'') (Some (errorDetail e)) now) g
      | Settled p outcome \<Rightarrow>
          if p \<in> set (inflight g) then
            handleCompleteAudio_resume now isOpen p outcome
              (g\<lparr>inflight := remove1 p (inflight g)\<rparr>)
          else g
      | Close ws \<Rightarrow> handleDisconnection ws g)"

fun run :: "(nat \<times> bool \<times> event) list \<Rightarrow> gateway \<Rightarrow> gateway" where
  "run [] g = g"
| "run ((now, isOpen, ev) # evs) g = run evs (step now isOpen ev g)"

text \<open>The number of pipeline calls in flight that hold the session object \<open>r\<close>.\<close>

definition turnsInFlight :: "gateway \<Rightarrow> ref \<Rightarrow> nat" where
  "turnsInFlight g r = length (filter (\<lambda>p. pending_session p = r) (inflight g))"

text \<open>An init message that gets through to \<open>sessions.set\<close> on connection \<open>ws\<close>.\<close>

definition completesInit :: "ws \<Rightarrow> event \<Rightarrow> bool" where
  "completesInit ws ev =
     (case ev of
        Message w (Init uid fid None) \<Rightarrow> w = ws \<and> truthy uid \<and> truthy fid
      | _ \<Rightarrow> False)"

text \<open>
  What holds of the gateway at every moment: a suspended handler holds a session object
  whose flag is set, a set flag belongs to a suspended handler, no object is held by two
  suspended handlers, and the references in use lie below the next free one.
\<close>

definition consistent :: "gateway \<Rightarrow> bool" where
  "consistent g \<longleftrightarrow>
     (\<forall>p\<in>set (inflight g). \<exists>s. objects g (pending_session p) = Some s \<and> isProcessing s)
   \<and> (\<forall>r s. objects g r = Some s \<longrightarrow> isProcessing s \<longrightarrow>
          (\<exists>p\<in>set (inflight g). pending_session p = r))
   \<and> (\<forall>r. turnsInFlight g r \<le> 1)
   \<and> (\<forall>r. objects g r \<noteq> None \<longrightarrow> r < fresh g)"

section \<open>Example collaborators and inputs\<close>

text \<open>
  A run in which every collaborator answers: speech is recognized as "hello", the
  provider resolves after 800 ms, speech synthesis yields three bytes, Redis works.
\<close>

definition healthy :: env where
  "healthy =
     \<lparr>recognize = (\<lambda>b. RecognizeOk (Some [Some (lit ''hello'')])),
      embedContent = (\<lambda>t. Some [1, 0]),
      query = (\<lambda>u v. QueryOk (Some [Some (lit ''likes tea'')])),
      chat_sendMessage = (\<lambda>p. Resolved 800 (lit '' Hi there. How are you? '')),
      random = 0,
      synthesize = (\<lambda>t. Some [1, 2, 3]),
      readFault = None,
      userPushFault = NoFault,
      aiPushFault = NoFault\<rparr>"

definition u1 :: jsstring where
  "u1 = lit ''u1''"

definition f1 :: jsstring where
  "f1 = lit ''f1''"

definition f2 :: jsstring where
  "f2 = lit ''f2''"

text \<open>A clip of 1000 bytes, and the 16-byte clip below the size check.\<close>

definition clip :: bytes where
  "clip = replicate 1000 0"

definition shortClip :: bytes where
  "shortClip = replicate 16 0"

definition world0 :: world where
  "world0 = \<lparr>sessions = Map.empty, redis = (\<lambda>k. [])\<rparr>"

text \<open>Speech recognition fails with the quota error (code 8).\<close>

definition quotaExceeded :: env where
  "quotaExceeded = healthy\<lparr>recognize := (\<lambda>b. RecognizeThrows (Thrown True (Some 8) None))\<rparr>"

text \<open>The \<open>rpush\<close> of the user's message is rejected.\<close>

definition redisDown :: env where
  "redisDown = healthy\<lparr>userPushFault := RpushFails (newError (lit ''Connection is closed.''))\<rparr>"

text \<open>The state after a turn with friend f1, and then after one with friend f2.\<close>

definition afterFirstTurn :: world where
  "afterFirstTurn = snd (processCompleteAudio healthy clip u1 f1 world0)"

definition afterOtherFriend :: world where
  "afterOtherFriend = snd (processCompleteAudio healthy clip u1 f2 afterFirstTurn)"



section \<open>Example runs of the gateway\<close>

text \<open>
  Connection 0 is initialized for user u1 and friend f1 (\<open>readyEvents\<close>) and then sends
  a clip (\<open>busyEvents\<close>): one pipeline call is in flight. In \<open>otherEvents\<close> connection 1
  is initialized and connection 0 sends an init message without a friend id. In
  \<open>twoConnectionEvents\<close> two connections are initialized for the same user and friend and
  each sends a clip.
\<close>

definition u1f1Session :: "bool \<Rightarrow> ClientSession" where
  "u1f1Session busy =
     \<lparr>client_userId = u1, client_friendId = f1, client_sessionId = Some (sessionKey u1 f1),
      isProcessing = busy\<rparr>"

definition firstTurn :: pending where
  "firstTurn =
     \<lparr>pending_ws = 0, pending_session = 0, pending_audio = clip,
      pending_userId = u1, pending_friendId = f1\<rparr>"

definition readyEvents :: "(nat \<times> bool \<times> event) list" where
  "readyEvents = [(0, True, Message 0 (Init (Some u1) (Some f1) None))]"

definition busyEvents :: "(nat \<times> bool \<times> event) list" where
  "busyEvents = readyEvents @ [(1, True, Message 0 (Audio (Inr clip)))]"

definition otherEvents :: "(nat \<times> bool \<times> event) list" where
  "otherEvents =
     [(0, True, Message 1 (Init (Some u1) (Some f1) None)),
      (1, True, Message 0 (Init (Some u1) None None))]"

text \<open>
  In \<open>reinitEvents\<close> connection 0 sends a clip, is initialized again while the pipeline
  call is in flight, and sends another clip.
\<close>

definition reinitEvents :: "(nat \<times> bool \<times> event) list" where
  "reinitEvents =
     busyEvents @
     [(2, True, Message 0 (Init (Some u1) (Some f1) None)),
      (3, True, Message 0 (Audio (Inr clip)))]"

definition secondTurn :: pending where
  "secondTurn =
     \<lparr>pending_ws = 1, pending_session = 1, pending_audio = clip,
      pending_userId = u1, pending_friendId = f1\<rparr>"

definition twoConnectionEvents :: "(nat \<times> bool \<times> event) list" where
  "twoConnectionEvents =
     [(0, True, Message 0 (Init (Some u1) (Some f1) None)),
      (1, True, Message 1 (Init (Some u1) (Some f1) None)),
      (2, True, Message 0 (Audio (Inr clip))),
      (3, True, Message 1 (Audio (Inr clip)))]"

section \<open>Properties of the pipeline\<close>


lemma sttRethrow_nonempty: "sttRethrow e \<noteq> []"
  by (simp add: sttRethrow_def lit_def split: option.splits)

lemma transcribeAudio_error_nonempty: "transcribeAudio rec a = Inl m \<Longrightarrow> m \<noteq> []"
  by (auto simp: transcribeAudio_def sttRethrow_nonempty
        split: if_splits recognize_outcome.splits option.splits)

lemma ensureSession_existing:
  "sessions w (sessionKey u f) = Some s \<Longrightarrow> ensureSession fault u f w = w"
  by (simp add: ensureSession_def)

lemma ensureSession_defined: "sessions (ensureSession fault u f w) (sessionKey u f) \<noteq> None"
  by (simp add: ensureSession_def initializeSession_def Let_def split: option.splits)

lemma ensureSession_redis: "redis (ensureSession fault u f w) = redis w"
  by (simp add: ensureSession_def initializeSession_def Let_def split: option.splits)

lemma clip_len: "length clip = 1000"
  by (simp add: clip_def)

lemma healthy_transcript: "transcribeAudio (recognize healthy) clip = Inr (lit ''hello'')"
  by (simp add: transcribeAudio_def healthy_def clip_len trim_def isWhiteSpace_def lit_def)

lemma trim_hello: "trim (lit ''hello'') = lit ''hello''"
  by (simp add: trim_def isWhiteSpace_def lit_def)

text \<open>
  C3. When the Transcriber raises, \<open>processCompleteAudio\<close> returns the apology text, an
  empty transcript and the error detail (the message of the raised error, never empty);
  the state is the one left by the session lookup at the head of the call, and is the
  state before the call when the session existed: the failed turn changes no context.
\<close>

theorem transcriber_failure:
  assumes "transcribeAudio (recognize e) audio = Inl m"
  shows "fst (processCompleteAudio e audio u f w) =
           \<lparr>response = errorMessage, transcript = [],
            audioBuffer = synthesize e errorMessage, error = Some m\<rparr>
       \<and> errorMessage \<noteq> [] \<and> m \<noteq> []
       \<and> snd (processCompleteAudio e audio u f w) = ensureSession (readFault e) u f w
       \<and> (sessions w (sessionKey u f) \<noteq> None \<longrightarrow>
            snd (processCompleteAudio e audio u f w) = w)"
proof -
  have r: "processCompleteAudio e audio u f w =
          (failureResult e m, ensureSession (readFault e) u f w)"
    using assms by (simp add: processCompleteAudio_def Let_def)
  have "m \<noteq> []" using assms by (rule transcribeAudio_error_nonempty)
  moreover have "errorMessage \<noteq> []" by (simp add: errorMessage_def lit_def)
  moreover have "sessions w (sessionKey u f) \<noteq> None \<longrightarrow>
      ensureSession (readFault e) u f w = w"
    by (auto simp: ensureSession_existing)
  ultimately show ?thesis using r by (simp add: failureResult_def)
qed

theorem transcriber_failure_witness:
  "transcribeAudio (recognize quotaExceeded) clip = Inl (lit ''Google Cloud quota exceeded.'')
   \<and> fst (processCompleteAudio quotaExceeded clip u1 f1 world0) =
           \<lparr>response = errorMessage, transcript = [],
            audioBuffer = Some [1, 2, 3],
            error = Some (lit ''Google Cloud quota exceeded.'')\<rparr>
   \<and> snd (processCompleteAudio quotaExceeded clip u1 f1 world0) =
       ensureSession None u1 f1 world0"
proof -
  have h: "transcribeAudio (recognize quotaExceeded) clip =
             Inl (lit ''Google Cloud quota exceeded.'')"
    by (simp add: transcribeAudio_def quotaExceeded_def healthy_def clip_len sttRethrow_def)
  show ?thesis using h transcriber_failure [OF h, of u1 f1 world0]
    by (simp add: quotaExceeded_def healthy_def)
qed

text \<open>
  C5, as the code has it. An audio buffer that is not empty and shorter than 1000 bytes
  is answered with the fixed "I didn't catch that" reply, an empty transcript and no
  error field; no provider but speech synthesis is called and the session is untouched.
\<close>

theorem short_audio:
  assumes "0 < length audio" and "length audio < 1000"
  shows "processCompleteAudio e audio u f w =
           (\<lparr>response = didntCatch, transcript = [],
             audioBuffer = synthesize e didntCatch, error = None\<rparr>,
            ensureSession (readFault e) u f w)"
  using assms by (simp add: processCompleteAudio_def transcribeAudio_def Let_def)

theorem short_audio_witness:
  "0 < length shortClip \<and> length shortClip < 1000 \<and>
   processCompleteAudio healthy shortClip u1 f1 world0 =
           (\<lparr>response = didntCatch, transcript = [],
             audioBuffer = Some [1, 2, 3], error = None\<rparr>,
            ensureSession None u1 f1 world0)"
proof -
  have a: "0 < length shortClip" and b: "length shortClip < 1000"
    by (simp_all add: shortClip_def)
  show ?thesis using a b short_audio [OF a b, of healthy u1 f1 world0]
    by (simp add: healthy_def)
qed

text \<open>
  An empty buffer does not take that path: \<open>transcribeAudio\<close> throws on it, and the turn
  ends in the catch block with the error field set and the other apology.
\<close>

theorem empty_audio_counterexample:
  "error (fst (processCompleteAudio healthy [] u1 f1 world0)) =
     Some (lit ''Failed to transcribe audio'')
   \<and> response (fst (processCompleteAudio healthy [] u1 f1 world0)) \<noteq> didntCatch"
  by (simp add: processCompleteAudio_def transcribeAudio_def Let_def sttRethrow_def
        newError_def failureResult_def errorMessage_def didntCatch_def lit_def)

text \<open>
  C7. The claim is that a failure to append the user's message to the chat log does not
  abort the turn. In the code the append is awaited inside the try block with no handler
  of its own: with speech recognized as "hello" and the \<open>rpush\<close> rejected, the turn
  ends in the catch block, with the turn-level error result.
\<close>

theorem user_log_failure_aborts_turn:
  "transcribeAudio (recognize redisDown) clip = Inr (lit ''hello'') \<and>
   fst (processCompleteAudio redisDown clip u1 f1 world0) =
     \<lparr>response = errorMessage, transcript = [], audioBuffer = Some [1, 2, 3],
      error = Some (lit ''Connection is closed.'')\<rparr>"
proof -
  have t: "transcribeAudio (recognize redisDown) clip = Inr (lit ''hello'')"
    using healthy_transcript by (simp add: redisDown_def healthy_def)
  have "lit ''hello'' \<noteq> []" by (simp add: lit_def)
  then have "fst (processCompleteAudio redisDown clip u1 f1 world0) =
      failureResult redisDown (errorDetail (newError (lit ''Connection is closed.'')))"
    using t by (simp add: processCompleteAudio_def Let_def trim_hello pushChat_def)
       (simp add: redisDown_def healthy_def)
  then show ?thesis using t
    by (simp add: failureResult_def errorDetail_def newError_def redisDown_def healthy_def)
qed



section \<open>Properties of the reply generation\<close>

lemma singleSentence_period:
  assumes "46 \<in> set r"
  shows "\<exists>n<length r. r ! n = 46 \<and> (\<forall>i<n. r ! i \<noteq> 46) \<and> singleSentence r = take (Suc n) r"
proof -
  let ?n = "length (takeWhile (\<lambda>c. c \<noteq> 46) r)"
  have "takeWhile (\<lambda>c. c \<noteq> 46) r \<noteq> r"
    using assms by (auto simp: takeWhile_eq_all_conv)
  then have "?n \<noteq> length r"
    by (metis takeWhile_eq_take take_all_iff order_refl)
  then have lt: "?n < length r"
    using length_takeWhile_le [of "\<lambda>c. c \<noteq> 46" r] by simp
  have at: "r ! ?n = 46"
    using nth_length_takeWhile [OF lt] by simp
  have before: "\<forall>i<?n. r ! i \<noteq> 46"
  proof (intro allI impI)
    fix i assume i: "i < ?n"
    then have "takeWhile (\<lambda>c. c \<noteq> 46) r ! i \<in> set (takeWhile (\<lambda>c. c \<noteq> 46) r)"
      by simp
    then have "takeWhile (\<lambda>c. c \<noteq> 46) r ! i \<noteq> 46"
      by (auto dest: set_takeWhileD)
    then show "r ! i \<noteq> 46" using i by (simp add: takeWhile_nth)
  qed
  have "take (Suc ?n) r = take ?n r @ [r ! ?n]"
    using lt by (rule take_Suc_conv_app_nth)
  moreover have "take ?n r = takeWhile (\<lambda>c. c \<noteq> 46) r"
    by (simp add: takeWhile_eq_take [symmetric])
  ultimately have "singleSentence r = take (Suc ?n) r"
    using assms at by (simp add: singleSentence_def)
  with lt at before show ?thesis by blast
qed

lemma trim_hi: "trim (lit '' Hi there. How are you? '') = lit ''Hi there. How are you?''"
  by (simp add: trim_def isWhiteSpace_def lit_def)

text \<open>
  C9, as the code has it. The text of a resolved provider call is trimmed first. When the
  trimmed text has a period at position \<open>n\<close> and none before, the reply is its first
  \<open>n + 1\<close> code units; when it has no period, the reply is the trimmed text.
\<close>

theorem reply_first_sentence:
  assumes "send (fullPrompt ctx msg) = Resolved ms text"
  shows "(46 \<in> set (trim text) \<longrightarrow>
            (\<exists>n<length (trim text). trim text ! n = 46 \<and> (\<forall>i<n. trim text ! i \<noteq> 46)
                \<and> generateResponse send rnd ctx msg = take (Suc n) (trim text)))
       \<and> (46 \<notin> set (trim text) \<longrightarrow> generateResponse send rnd ctx msg = trim text)"
proof -
  have g: "generateResponse send rnd ctx msg = singleSentence (trim text)"
    using assms by (simp add: generateResponse_def)
  show ?thesis
    using singleSentence_period [of "trim text"] by (auto simp: g singleSentence_def)
qed

theorem reply_first_sentence_witness:
  "chat_sendMessage healthy (fullPrompt [] (lit ''hello'')) =
     Resolved 800 (lit '' Hi there. How are you? '')
   \<and> 46 \<in> set (trim (lit '' Hi there. How are you? ''))
   \<and> (\<exists>n<length (trim (lit '' Hi there. How are you? '')).
         generateResponse (chat_sendMessage healthy) 0 [] (lit ''hello'') =
           take (Suc n) (trim (lit '' Hi there. How are you? '')))
   \<and> generateResponse (chat_sendMessage healthy) 0 [] (lit ''hello'') = lit ''Hi there.''"
proof -
  have h: "chat_sendMessage healthy (fullPrompt [] (lit ''hello'')) =
      Resolved 800 (lit '' Hi there. How are you? '')"
    by (simp add: healthy_def)
  have p: "46 \<in> set (trim (lit '' Hi there. How are you? ''))"
    by (simp add: trim_hi) (simp add: lit_def)
  from reply_first_sentence [of "chat_sendMessage healthy" "[]" "lit ''hello''" 800
         "lit '' Hi there. How are you? ''" 0] h p
  have n: "\<exists>n<length (trim (lit '' Hi there. How are you? '')).
         generateResponse (chat_sendMessage healthy) 0 [] (lit ''hello'') =
           take (Suc n) (trim (lit '' Hi there. How are you? ''))"
    by blast
  have "generateResponse (chat_sendMessage healthy) 0 [] (lit ''hello'') = lit ''Hi there.''"
    by (simp add: generateResponse_def h trim_hi singleSentence_def) (simp add: lit_def)
  with h p n show ?thesis by simp
qed

text \<open>
  The provider's text is not used verbatim when it has no period: leading and trailing
  white space is removed.
\<close>

theorem reply_not_verbatim_counterexample:
  "46 \<notin> set (lit '' ok'') \<and>
   generateResponse (\<lambda>p. Resolved 20 (lit '' ok'')) 0 [] (lit ''hi'') \<noteq> lit '' ok''"
  by (simp add: generateResponse_def singleSentence_def trim_def isWhiteSpace_def lit_def)

text \<open>
  C4. The claim is that a provider call still pending at the deadline is abandoned and
  replaced by a fallback sentence. In the code the timer only calls \<open>abort()\<close> on a
  controller whose signal no call received: a call that resolves after 20000 ms, past
  the 15000 ms of the timer, yields the provider's text, which is no fallback sentence.
\<close>

theorem late_reply_not_replaced:
  "abortTimerFires (Resolved 20000 (lit ''Sure.'')) \<and>
   generateResponse (\<lambda>p. Resolved 20000 (lit ''Sure.'')) 0 [] (lit ''hi'') = lit ''Sure.'' \<and>
   lit ''Sure.'' \<notin> set fallbackResponses"
  by (simp add: abortTimerFires_def generateResponse_def singleSentence_def trim_def
        isWhiteSpace_def lit_def fallbackResponses_def)

text \<open>A rejected provider call does yield one of the fallback sentences.\<close>

lemma random_index:
  "0 \<le> r \<Longrightarrow> r < 1 \<Longrightarrow>
   nat \<lfloor>(r :: rat) * of_nat (length fallbackResponses)\<rfloor> < length fallbackResponses"
  by (simp add: floor_less_iff nat_less_iff fallbackResponses_def)

lemma generateResponse_rejected:
  "send (fullPrompt ctx msg) = Rejected ms err \<Longrightarrow> 0 \<le> rnd \<Longrightarrow> rnd < 1 \<Longrightarrow>
   generateResponse send rnd ctx msg \<in> set fallbackResponses"
  using random_index [of rnd] by (simp add: generateResponse_def)

section \<open>Properties of the session state\<close>

lemma healthy_reply: "generateResponse (chat_sendMessage healthy) r c t = lit ''Hi there.''"
  by (simp add: generateResponse_def healthy_def trim_hi singleSentence_def) (simp add: lit_def)

lemma key_neq: "sessionKey u1 f2 \<noteq> sessionKey u1 f1"
  by (simp add: sessionKey_def u1_def f1_def f2_def lit_def)

lemma completed_context:
  assumes "completed (fst (processCompleteAudio e a u f w))"
  shows "contextOf (snd (processCompleteAudio e a u f w)) u f =
         updatedContext (contextOf (ensureSession (readFault e) u f w) u f)
           (transcript (fst (processCompleteAudio e a u f w)))
           (response (fst (processCompleteAudio e a u f w)))"
  using assms
  by (auto simp: processCompleteAudio_def Let_def completed_def contextOf_def failureResult_def
       split: sum.splits if_splits prod.splits option.splits)


lemma healthy_turn_result:
  "fst (processCompleteAudio healthy clip u f w) =
    \<lparr>response = lit ''Hi there.'', transcript = lit ''hello'', audioBuffer = Some [1, 2, 3], error = None\<rparr>"
proof -
  have ne: "lit ''hello'' \<noteq> []" by (simp add: lit_def)
  obtain s where s: "sessions (ensureSession (readFault healthy) u f w) (sessionKey u f) = Some s"
    using ensureSession_defined [of "readFault healthy" u f w] by auto
  show ?thesis
    using ne s
    by (simp add: processCompleteAudio_def Let_def healthy_transcript trim_hello healthy_reply
          split: prod.splits option.splits)
       (auto simp: pushChat_def healthy_def Let_def)
qed

lemma healthy_turn_redis:
  "redis (snd (processCompleteAudio healthy clip u f w)) =
     (redis w)(chatKey u := slice_last 100 (slice_last 100 (redis w (chatKey u) @ [(user, lit ''hello'')]) @ [(ai, lit ''Hi there.'')]))"
proof -
  have ne: "lit ''hello'' \<noteq> []" by (simp add: lit_def)
  obtain s where s: "sessions (ensureSession (readFault healthy) u f w) (sessionKey u f) = Some s"
    using ensureSession_defined [of "readFault healthy" u f w] by auto
  have uf: "userPushFault healthy = NoFault" "aiPushFault healthy = NoFault" by (simp_all add: healthy_def)
  show ?thesis
    using ne s
    by (simp add: processCompleteAudio_def Let_def healthy_transcript trim_hello healthy_reply
          pushChat_def uf ensureSession_redis split: prod.splits option.splits)
qed

lemma other_key_sessions:
  assumes "k \<noteq> sessionKey u f"
  shows "sessions (snd (processCompleteAudio e a u f w)) k = sessions w k"
proof -
  have en: "sessions (ensureSession (readFault e) u f w) k = sessions w k"
    using assms by (simp add: ensureSession_def initializeSession_def Let_def split: option.splits)
  show ?thesis
    using assms en
    by (auto simp: processCompleteAudio_def Let_def
         split: sum.splits if_splits prod.splits option.splits)
qed

lemma ensure_world0: "contextOf (ensureSession None u f world0) u f = []"
  by (simp add: ensureSession_def initializeSession_def world0_def contextOf_def Let_def
       seedContext_def getRecentChats_def)

lemma healthy_completed: "completed (fst (processCompleteAudio healthy clip u f w))"
  by (simp add: healthy_turn_result completed_def) (simp add: lit_def)

lemma first_context:
  "contextOf afterFirstTurn u1 f1 = [lit ''user: hello'', lit ''ai: Hi there.'']"
proof -
  have "contextOf afterFirstTurn u1 f1 = updatedContext [] (lit ''hello'') (lit ''Hi there.'')"
    unfolding afterFirstTurn_def
    using completed_context [OF healthy_completed, of u1 f1 world0]
    by (simp add: healthy_turn_result) (simp add: healthy_def ensure_world0)
  then show ?thesis by (simp add: updatedContext_def slice_last_def lit_def)
qed

lemma other_context: "contextOf afterOtherFriend u1 f1 = [lit ''user: hello'', lit ''ai: Hi there.'']"
proof -
  have "sessions afterOtherFriend (sessionKey u1 f1) = sessions afterFirstTurn (sessionKey u1 f1)"
    unfolding afterOtherFriend_def using key_neq by (simp add: other_key_sessions)
  then have "contextOf afterOtherFriend u1 f1 = contextOf afterFirstTurn u1 f1"
    by (simp add: contextOf_def)
  then show ?thesis by (simp add: first_context)
qed

lemma other_redis:
  "redis afterOtherFriend (chatKey u1) =
     [(user, lit ''hello''), (ai, lit ''Hi there.''), (user, lit ''hello''), (ai, lit ''Hi there.'')]"
  by (simp add: afterOtherFriend_def afterFirstTurn_def healthy_turn_redis world0_def slice_last_def)

text \<open>
  C6. A second initialization does not return the existing session unchanged: after a
  turn with friend f1 and a turn with friend f2 of the same user, the session of f1 holds
  two entries and the user's chat log four; initializing the session of f1 again replaces
  its context by the four entries of the log.
\<close>

theorem reinit_reseeds_counterexample:
  "sessions afterOtherFriend (sessionKey u1 f1) \<noteq> None \<and>
   contextOf (snd (initializeSession None u1 f1 afterOtherFriend)) u1 f1 \<noteq>
     contextOf afterOtherFriend u1 f1"
proof -
  have "contextOf afterOtherFriend u1 f1 \<noteq> []" by (simp add: other_context)
  then have ex: "sessions afterOtherFriend (sessionKey u1 f1) \<noteq> None"
    by (auto simp: contextOf_def split: option.splits)
  have "length (contextOf (snd (initializeSession None u1 f1 afterOtherFriend)) u1 f1) = 4"
    by (simp add: initializeSession_def Let_def contextOf_def seedContext_def getRecentChats_def
          other_redis)
  moreover have "length (contextOf afterOtherFriend u1 f1) = 2" by (simp add: other_context)
  ultimately have "contextOf (snd (initializeSession None u1 f1 afterOtherFriend)) u1 f1 \<noteq>
     contextOf afterOtherFriend u1 f1" by auto
  with ex show ?thesis by simp
qed

text \<open>
  C6, as the code has it. \<open>initializeSession\<close> returns the session id and always stores
  a new session under it, whose context is seeded from the chat log as it is now (empty
  when the read fails), whatever was stored before; the other keys and the chat log are
  untouched, so a key has one session, and a second initialization in the same state
  changes nothing more. Only the session lookup at the head of \<open>processCompleteAudio\<close>
  keeps an existing session as it is.
\<close>

theorem initializeSession_overwrites:
  "fst (initializeSession fault u f w) = sessionKey u f
   \<and> sessions (snd (initializeSession fault u f w)) (sessionKey u f) =
       Some \<lparr>userId = u, friendId = f, sessionContext = seedContext fault u (redis w)\<rparr>
   \<and> (\<forall>k. k \<noteq> sessionKey u f \<longrightarrow>
         sessions (snd (initializeSession fault u f w)) k = sessions w k)
   \<and> redis (snd (initializeSession fault u f w)) = redis w
   \<and> snd (initializeSession fault u f (snd (initializeSession fault u f w))) =
       snd (initializeSession fault u f w)
   \<and> (sessions w (sessionKey u f) \<noteq> None \<longrightarrow> ensureSession fault u f w = w)"
  by (auto simp: initializeSession_def Let_def ensureSession_def)

theorem initializeSession_overwrites_witness:
  "sessionKey u1 f2 \<noteq> sessionKey u1 f1
   \<and> sessions afterOtherFriend (sessionKey u1 f1) \<noteq> None
   \<and> sessions (snd (initializeSession None u1 f1 afterOtherFriend)) (sessionKey u1 f2) =
       sessions afterOtherFriend (sessionKey u1 f2)
   \<and> ensureSession None u1 f1 afterOtherFriend = afterOtherFriend
   \<and> sessions (snd (initializeSession None u1 f1 afterOtherFriend)) (sessionKey u1 f1) =
       Some \<lparr>userId = u1, friendId = f1,
             sessionContext = [lit ''user: hello'', lit ''ai: Hi there.'',
                               lit ''user: hello'', lit ''ai: Hi there.'']\<rparr>"
proof -
  have "contextOf afterOtherFriend u1 f1 \<noteq> []" by (simp add: other_context)
  then have ex: "sessions afterOtherFriend (sessionKey u1 f1) \<noteq> None"
    by (auto simp: contextOf_def split: option.splits)
  have seed: "seedContext None u1 (redis afterOtherFriend) =
      [lit ''user: hello'', lit ''ai: Hi there.'', lit ''user: hello'', lit ''ai: Hi there.'']"
    by (simp add: seedContext_def getRecentChats_def other_redis roleName_def lit_def)
  show ?thesis
    using initializeSession_overwrites [of None u1 f1 afterOtherFriend] key_neq ex
    by (simp add: seed)
qed


lemma contextOf_existing:
  "sessions w (sessionKey u f) \<noteq> None \<Longrightarrow> contextOf (ensureSession fault u f w) u f = contextOf w u f"
  by (auto simp: ensureSession_existing)











section \<open>Properties of the gateway\<close>

lemma sendMessage_fields [simp]:
  "objects (sendMessage b ws m g) = objects g"
  "fresh (sendMessage b ws m g) = fresh g"
  "ws_sessions (sendMessage b ws m g) = ws_sessions g"
  "inflight (sendMessage b ws m g) = inflight g"
  by (simp_all add: sendMessage_def)

lemma turnsInFlight_sendMessage [simp]:
  "turnsInFlight (sendMessage b ws m g) r = turnsInFlight g r"
  by (simp add: turnsInFlight_def)

lemma consistent_sendMessage [simp]: "consistent (sendMessage b ws m g) = consistent g"
  by (simp add: consistent_def)

lemma consistent_gateway0: "consistent gateway0"
  by (simp add: consistent_def gateway0_def turnsInFlight_def)

lemma consistent_handleInit:
  assumes "consistent g"
  shows "consistent (handleInit now b ws uid fid fault g)"
proof -
  have fr: "objects g (fresh g) = None"
    using assms by (auto simp: consistent_def)
  have "consistent (g\<lparr>objects := (objects g)(fresh g \<mapsto> s), fresh := Suc (fresh g),
                       ws_sessions := m\<rparr>)" if "\<not> isProcessing s" for s m
    using assms that fr
    by (auto simp: consistent_def turnsInFlight_def less_Suc_eq)
  then show ?thesis
    using assms
    by (auto simp: handleInit_def Let_def split: option.splits)
qed

lemma consistent_begin:
  assumes "consistent g"
  shows "consistent (handleCompleteAudio_begin now b ws data g)"
proof (cases "ws_sessions g ws")
  case None
  then show ?thesis using assms by (simp add: handleCompleteAudio_begin_def)
next
  case (Some r)
  show ?thesis
  proof (cases "objects g r")
    case None
    then show ?thesis using assms Some by (simp add: handleCompleteAudio_begin_def)
  next
    case (Some s)
    note obj = Some
    show ?thesis
    proof (cases "isProcessing s")
      case True
      then show ?thesis using assms obj \<open>ws_sessions g ws = Some r\<close>
        by (simp add: handleCompleteAudio_begin_def)
    next
      case False
      have none: "filter (\<lambda>p. pending_session p = r) (inflight g) = []"
        using assms obj False by (auto simp: consistent_def filter_empty_conv)
      show ?thesis
      proof (cases data)
        case (Inl e)
        have "s\<lparr>isProcessing := False\<rparr> = s" using False by simp
        then have "setProcessing r False (sendMessage b ws m (sendMessage b ws m' (setProcessing r True g)))
              = sendMessage b ws m (sendMessage b ws m' g)" for m m'
          using obj by (simp add: setProcessing_def sendMessage_def fun_upd_idem)
        then show ?thesis
          using assms obj False Inl \<open>ws_sessions g ws = Some r\<close>
          by (simp add: handleCompleteAudio_begin_def Let_def)
      next
        case (Inr buffer)
        let ?p = "\<lparr>pending_ws = ws, pending_session = r, pending_audio = buffer,
                  pending_userId = client_userId s, pending_friendId = client_friendId s\<rparr>"
        let ?g = "(sendMessage b ws (ProcessingResponse (lit ''Processing your audio...''))
                    (setProcessing r True g))\<lparr>inflight := inflight g @ [?p]\<rparr>"
        have eq: "handleCompleteAudio_begin now b ws data g = ?g"
          using obj False Inr \<open>ws_sessions g ws = Some r\<close>
          by (simp add: handleCompleteAudio_begin_def Let_def setProcessing_def)
        have "consistent ?g"
          using assms obj none
          by (auto simp: consistent_def turnsInFlight_def setProcessing_def sendMessage_def)
        then show ?thesis by (simp add: eq)
      qed
    qed
  qed
qed

lemma filter_remove1_length:
  "p \<in> set xs \<Longrightarrow> P p \<Longrightarrow> length (filter P (remove1 p xs)) = length (filter P xs) - 1"
  by (induction xs) (auto simp: Suc_diff_le filter_empty_conv intro!: Suc_pred)

lemma consistent_resume:
  assumes "consistent g" and "p \<in> set (inflight g)"
  shows "consistent (handleCompleteAudio_resume now b p outcome (g\<lparr>inflight := remove1 p (inflight g)\<rparr>))"
proof -
  let ?r = "pending_session p"
  obtain s where s: "objects g ?r = Some s"
    using assms by (auto simp: consistent_def)
  have one: "length (filter (\<lambda>q. pending_session q = ?r) (inflight g)) \<le> 1"
    using assms(1) by (simp add: consistent_def turnsInFlight_def)
  have gone: "filter (\<lambda>q. pending_session q = ?r) (remove1 p (inflight g)) = []"
    using filter_remove1_length [OF assms(2), of "\<lambda>q. pending_session q = ?r"] one by simp
  have others: "q \<in> set (inflight g) \<Longrightarrow> pending_session q \<noteq> ?r \<Longrightarrow> q \<in> set (remove1 p (inflight g))" for q
    by (metis in_set_remove1)
  have le: "length (filter (\<lambda>q. pending_session q = r) (remove1 p (inflight g))) \<le> 1" for r
  proof -
    have "length (filter (\<lambda>q. pending_session q = r) (remove1 p (inflight g)))
            \<le> length (filter (\<lambda>q. pending_session q = r) (inflight g))"
      by (simp add: filter_remove1 length_remove1)
    moreover have "length (filter (\<lambda>q. pending_session q = r) (inflight g)) \<le> 1"
      using assms(1) by (simp add: consistent_def turnsInFlight_def)
    ultimately show ?thesis by simp
  qed
  let ?g = "setProcessing ?r False (g\<lparr>inflight := remove1 p (inflight g)\<rparr>)"
  have c: "consistent ?g"
    unfolding consistent_def
  proof (intro conjI ballI allI impI)
    fix q assume q: "q \<in> set (inflight ?g)"
    then have qin: "q \<in> set (remove1 p (inflight g))" by (simp add: setProcessing_def s)
    then have "pending_session q \<noteq> ?r" using gone by (auto simp: filter_empty_conv)
    moreover have "q \<in> set (inflight g)" using qin set_remove1_subset [of p "inflight g"] by auto
    ultimately show "\<exists>s. objects ?g (pending_session q) = Some s \<and> isProcessing s"
      using assms(1) by (auto simp: consistent_def setProcessing_def s)
  next
    fix r t assume "objects ?g r = Some t" "isProcessing t"
    then have "r \<noteq> ?r" and "objects g r = Some t"
      by (auto simp: setProcessing_def s split: if_splits)
    moreover have "\<forall>r s. objects g r = Some s \<longrightarrow> isProcessing s \<longrightarrow>
          (\<exists>p\<in>set (inflight g). pending_session p = r)"
      using assms(1) by (simp add: consistent_def)
    ultimately obtain q where "q \<in> set (inflight g)" "pending_session q = r"
      using \<open>isProcessing t\<close> by blast
    then show "\<exists>q\<in>set (inflight ?g). pending_session q = r"
      using others \<open>r \<noteq> ?r\<close> by (auto simp: setProcessing_def s)
  next
    fix r show "turnsInFlight ?g r \<le> 1"
      using le by (simp add: turnsInFlight_def setProcessing_def s)
  next
    fix r assume "objects ?g r \<noteq> None"
    then have "objects g r \<noteq> None" by (auto simp: setProcessing_def s split: if_splits)
    then show "r < fresh ?g" using assms(1) by (simp add: consistent_def setProcessing_def s)
  qed
  have "setProcessing ?r False (sendMessage b ws m (g\<lparr>inflight := remove1 p (inflight g)\<rparr>))
        = sendMessage b ws m ?g" for ws m
    by (simp add: setProcessing_def sendMessage_def s)
  then show ?thesis
    using c by (simp add: handleCompleteAudio_resume_def Let_def split: pipeline_outcome.splits)
qed

lemma consistent_handleDisconnection:
  "consistent g \<Longrightarrow> consistent (handleDisconnection ws g)"
  by (simp add: handleDisconnection_def consistent_def turnsInFlight_def)

lemma consistent_step: "consistent g \<Longrightarrow> consistent (step now b ev g)"
  by (simp add: step_def consistent_handleInit consistent_begin consistent_resume
        consistent_handleDisconnection split: event.splits message.splits)

lemma consistent_run: "consistent g \<Longrightarrow> consistent (run evs g)"
  by (induction evs arbitrary: g) (auto simp: consistent_step)

lemma setProcessing_fields [simp]:
  "fresh (setProcessing r v g) = fresh g"
  "ws_sessions (setProcessing r v g) = ws_sessions g"
  "inflight (setProcessing r v g) = inflight g"
  "sent (setProcessing r v g) = sent g"
  by (simp_all add: setProcessing_def split: option.splits)

lemma setProcessing_objects:
  "objects g r = Some s \<Longrightarrow> objects (setProcessing r v g) = (objects g)(r \<mapsto> s\<lparr>isProcessing := v\<rparr>)"
  by (simp add: setProcessing_def)

lemma resume_fields:
  "inflight (handleCompleteAudio_resume now b p outcome g) = inflight g"
  "ws_sessions (handleCompleteAudio_resume now b p outcome g) = ws_sessions g"
  by (simp_all add: handleCompleteAudio_resume_def Let_def split: pipeline_outcome.splits)

lemma resume_objects:
  "objects g (pending_session p) = Some s \<Longrightarrow>
   objects (handleCompleteAudio_resume now b p outcome g) =
     (objects g)(pending_session p \<mapsto> s\<lparr>isProcessing := False\<rparr>)"
  by (simp add: handleCompleteAudio_resume_def Let_def setProcessing_def sendMessage_def
        split: pipeline_outcome.splits)

lemma begin_ws_sessions:
  "ws_sessions (handleCompleteAudio_begin now b ws data g) = ws_sessions g"
  by (simp add: handleCompleteAudio_begin_def Let_def split: option.splits sum.splits)

lemma busy_rejected:
  assumes "ws_sessions g ws = Some r" and "objects g r = Some s" and "isProcessing s"
  shows "step now b (Message ws (Audio data)) g =
           sendMessage b ws
             (ErrorResponse
                (lit ''Already processing audio. Please wait for current request to complete.'')
                None now) g"
  using assms by (simp add: step_def handleCompleteAudio_begin_def)

lemma decode_failure_releases:
  assumes "ws_sessions g ws = Some r" and "objects g r = Some s" and "\<not> isProcessing s"
  shows "objects (step now b (Message ws (Audio (Inl e))) g) = objects g"
    and "inflight (step now b (Message ws (Audio (Inl e))) g) = inflight g"
proof -
  have "s\<lparr>isProcessing := False\<rparr> = s" using assms(3) by simp
  then show "objects (step now b (Message ws (Audio (Inl e))) g) = objects g"
    using assms
    by (simp add: step_def handleCompleteAudio_begin_def Let_def setProcessing_def sendMessage_def
          fun_upd_idem)
  show "inflight (step now b (Message ws (Audio (Inl e))) g) = inflight g"
    using assms by (simp add: step_def handleCompleteAudio_begin_def Let_def)
qed

lemma settled_releases:
  assumes "p \<in> set (inflight g)" and "objects g (pending_session p) = Some s"
  shows "objects (step now b (Settled p outcome) g) (pending_session p) =
           Some (s\<lparr>isProcessing := False\<rparr>)"
    and "inflight (step now b (Settled p outcome) g) = remove1 p (inflight g)"
  using assms by (simp_all add: step_def resume_objects resume_fields)

lemma consistent_flag:
  "consistent g \<Longrightarrow> objects g r = Some s \<Longrightarrow> isProcessing s \<Longrightarrow>
   \<exists>p\<in>set (inflight g). pending_session p = r"
  unfolding consistent_def by blast

lemma consistent_pending:
  "consistent g \<Longrightarrow> p \<in> set (inflight g) \<Longrightarrow>
   \<exists>s. objects g (pending_session p) = Some s \<and> isProcessing s"
  unfolding consistent_def by blast

lemma flag_iff_in_flight:
  assumes "consistent g" and "objects g r = Some t"
  shows "isProcessing t \<longleftrightarrow> turnsInFlight g r = 1"
proof
  assume "isProcessing t"
  then obtain p where "p \<in> set (inflight g)" "pending_session p = r"
    using assms consistent_flag by blast
  then have "filter (\<lambda>p. pending_session p = r) (inflight g) \<noteq> []"
    by (auto simp: filter_empty_conv)
  then have "0 < turnsInFlight g r" by (simp add: turnsInFlight_def)
  moreover have "turnsInFlight g r \<le> 1" using assms(1) by (simp add: consistent_def)
  ultimately show "turnsInFlight g r = 1" by simp
next
  assume "turnsInFlight g r = 1"
  then have "filter (\<lambda>p. pending_session p = r) (inflight g) \<noteq> []"
    by (auto simp: turnsInFlight_def)
  then obtain p where "p \<in> set (inflight g)" "pending_session p = r"
    by (auto simp: filter_empty_conv)
  then show "isProcessing t" using assms consistent_pending [of g p] by auto
qed

text \<open>
  C1, as the code has it. An audio message on a connection whose session object has the
  flag set is answered with the "already processing" error frame and nothing else: no
  pipeline call is added and no object changes. When the pipeline call of a suspended
  handler settles, whatever the outcome, the flag of the object that the handler holds is
  cleared; when decoding the data throws, the flag is cleared at once and no call is
  made. So in every state that the gateway reaches, a session object is held by at most
  one pipeline call in flight, and its flag is set exactly when there is one.
\<close>

theorem single_flight:
  "(ws_sessions g ws = Some r \<longrightarrow> objects g r = Some s \<longrightarrow> isProcessing s \<longrightarrow>
      step now b (Message ws (Audio data)) g =
        sendMessage b ws
          (ErrorResponse
             (lit ''Already processing audio. Please wait for current request to complete.'')
             None now) g
      \<and> inflight (step now b (Message ws (Audio data)) g) = inflight g
      \<and> objects (step now b (Message ws (Audio data)) g) = objects g)
   \<and> (p \<in> set (inflight g) \<longrightarrow> objects g (pending_session p) = Some s' \<longrightarrow>
        objects (step now b (Settled p outcome) g) (pending_session p) =
          Some (s'\<lparr>isProcessing := False\<rparr>)
        \<and> inflight (step now b (Settled p outcome) g) = remove1 p (inflight g))
   \<and> (ws_sessions h c = Some q \<longrightarrow> objects h q = Some u \<longrightarrow> \<not> isProcessing u \<longrightarrow>
        objects (step now b (Message c (Audio (Inl e))) h) = objects h
        \<and> inflight (step now b (Message c (Audio (Inl e))) h) = inflight h)
   \<and> turnsInFlight (run evs gateway0) r' \<le> 1
   \<and> (objects (run evs gateway0) r' = Some t \<longrightarrow>
        (isProcessing t \<longleftrightarrow> turnsInFlight (run evs gateway0) r' = 1))"
proof -
  have c: "consistent (run evs gateway0)"
    using consistent_gateway0 by (rule consistent_run)
  then have "turnsInFlight (run evs gateway0) r' \<le> 1" by (simp add: consistent_def)
  moreover have "objects (run evs gateway0) r' = Some t \<longrightarrow>
        (isProcessing t \<longleftrightarrow> turnsInFlight (run evs gateway0) r' = 1)"
    using flag_iff_in_flight [OF c] by blast
  ultimately show ?thesis
    using busy_rejected [of g ws r s now b data] decode_failure_releases [of h c q u now b e]
      settled_releases [of p g s' now b outcome]
    by simp
qed

lemma step_keeps_uninitialized:
  assumes "ws_sessions g ws = None" and "\<not> completesInit ws ev"
  shows "ws_sessions (step now b ev g) ws = None"
  using assms
  by (auto simp: step_def completesInit_def begin_ws_sessions resume_fields handleInit_def
        handleDisconnection_def Let_def
      split: event.splits message.splits option.splits)

lemma run_keeps_uninitialized:
  "ws_sessions g ws = None \<Longrightarrow> \<forall>(now, b, ev)\<in>set evs. \<not> completesInit ws ev \<Longrightarrow>
   ws_sessions (run evs g) ws = None"
  by (induction evs arbitrary: g) (auto simp: step_keeps_uninitialized)

text \<open>
  C8. On a connection on which no init message has got through to \<open>sessions.set\<close>, an
  audio message is answered with the "not initialized" error frame (written when the
  socket is open) and the pipeline is not invoked: the calls in flight are as before.
\<close>

theorem audio_before_init:
  assumes "\<forall>(now', b', ev)\<in>set evs. \<not> completesInit ws ev"
  shows "step now b (Message ws (Audio data)) (run evs gateway0) =
           sendMessage b ws
             (ErrorResponse (lit ''Session not initialized. Please send init message first.'')
                None now) (run evs gateway0)
       \<and> inflight (step now b (Message ws (Audio data)) (run evs gateway0)) =
           inflight (run evs gateway0)
       \<and> (b \<longrightarrow> sent (step now b (Message ws (Audio data)) (run evs gateway0)) =
             sent (run evs gateway0) @
               [(ws, ErrorResponse
                       (lit ''Session not initialized. Please send init message first.'')
                       None now)])"
proof -
  have "ws_sessions gateway0 ws = None" by (simp add: gateway0_def)
  then have "ws_sessions (run evs gateway0) ws = None"
    using assms by (rule run_keeps_uninitialized)
  then show ?thesis
    by (simp add: step_def handleCompleteAudio_begin_def) (simp add: sendMessage_def)
qed

lemma truthy_ids: "truthy (Some u1)" "truthy (Some f1)" "\<not> truthy None"
  by (simp_all add: truthy_def u1_def f1_def lit_def)

lemma readyGateway:
  "run readyEvents gateway0 =
     \<lparr>objects = [0 \<mapsto> u1f1Session False], fresh = 1, ws_sessions = [0 \<mapsto> 0],
      sent = [(0, ReadyResponse (lit ''Session initialized and ready to process audio'')
                    (Some (sessionKey u1 f1)))],
      inflight = []\<rparr>"
  by (simp add: readyEvents_def step_def handleInit_def truthy_ids Let_def sendMessage_def
        gateway0_def u1f1Session_def)

lemma busyGateway:
  "run busyEvents gateway0 =
     \<lparr>objects = [0 \<mapsto> u1f1Session True], fresh = 1, ws_sessions = [0 \<mapsto> 0],
      sent = [(0, ReadyResponse (lit ''Session initialized and ready to process audio'')
                    (Some (sessionKey u1 f1))),
              (0, ProcessingResponse (lit ''Processing your audio...''))],
      inflight = [firstTurn]\<rparr>"
proof -
  have "run busyEvents gateway0 =
      step 1 True (Message 0 (Audio (Inr clip))) (run readyEvents gateway0)"
    by (simp add: busyEvents_def readyEvents_def)
  then show ?thesis
    by (simp add: readyGateway step_def handleCompleteAudio_begin_def Let_def sendMessage_def
          setProcessing_def u1f1Session_def firstTurn_def)
qed

theorem single_flight_witness:
  "ws_sessions (run busyEvents gateway0) 0 = Some 0
   \<and> objects (run busyEvents gateway0) 0 = Some (u1f1Session True)
   \<and> isProcessing (u1f1Session True)
   \<and> sent (step 2 True (Message 0 (Audio (Inr clip))) (run busyEvents gateway0)) =
       sent (run busyEvents gateway0) @
         [(0, ErrorResponse
                (lit ''Already processing audio. Please wait for current request to complete.'')
                None 2)]
   \<and> inflight (step 2 True (Message 0 (Audio (Inr clip))) (run busyEvents gateway0)) = [firstTurn]
   \<and> firstTurn \<in> set (inflight (run busyEvents gateway0))
   \<and> objects (step 2 True (Settled firstTurn (Threw (newError (lit ''boom''))))
               (run busyEvents gateway0)) 0 = Some (u1f1Session False)
   \<and> inflight (step 2 True (Settled firstTurn (Threw (newError (lit ''boom''))))
               (run busyEvents gateway0)) = []
   \<and> ws_sessions (run readyEvents gateway0) 0 = Some 0
   \<and> objects (run readyEvents gateway0) 0 = Some (u1f1Session False)
   \<and> \<not> isProcessing (u1f1Session False)
   \<and> objects (step 2 True (Message 0 (Audio (Inl (newError (lit ''bad data''))))) (run readyEvents gateway0)) 0
       = Some (u1f1Session False)
   \<and> inflight (step 2 True (Message 0 (Audio (Inl (newError (lit ''bad data''))))) (run readyEvents gateway0)) = []
   \<and> turnsInFlight (run busyEvents gateway0) 0 = 1"
proof -
  have a: "ws_sessions (run busyEvents gateway0) 0 = Some 0"
    and b: "objects (run busyEvents gateway0) 0 = Some (u1f1Session True)"
    and c: "inflight (run busyEvents gateway0) = [firstTurn]"
    by (simp_all add: busyGateway)
  have d: "isProcessing (u1f1Session True)" "\<not> isProcessing (u1f1Session False)"
    "u1f1Session True\<lparr>isProcessing := False\<rparr> = u1f1Session False"
    by (simp_all add: u1f1Session_def)
  have e: "ws_sessions (run readyEvents gateway0) 0 = Some 0"
    and f: "objects (run readyEvents gateway0) 0 = Some (u1f1Session False)"
    and g: "inflight (run readyEvents gateway0) = []"
    by (simp_all add: readyGateway)
  have p: "pending_session firstTurn = 0" by (simp add: firstTurn_def)
  show ?thesis
    using single_flight [of "run busyEvents gateway0" 0 0 "u1f1Session True" 2 True "Inr clip"
        firstTurn "u1f1Session True" "Threw (newError (lit ''boom''))"
        "run readyEvents gateway0" 0 0 "u1f1Session False" "newError (lit ''bad data'')"
        busyEvents 0 "u1f1Session True"]
      a b c d e f g p
    by (simp add: sendMessage_def)
qed

theorem audio_before_init_witness:
  "\<not> completesInit 0 (Message 1 (Init (Some u1) (Some f1) None))
   \<and> \<not> completesInit 0 (Message 0 (Init (Some u1) None None))
   \<and> sent (step 2 True (Message 0 (Audio (Inr clip))) (run otherEvents gateway0)) =
       sent (run otherEvents gateway0) @
         [(0, ErrorResponse (lit ''Session not initialized. Please send init message first.'')
                None 2)]
   \<and> inflight (step 2 True (Message 0 (Audio (Inr clip))) (run otherEvents gateway0)) =
       inflight (run otherEvents gateway0)
   \<and> ws_sessions (run otherEvents gateway0) 1 = Some 0"
proof -
  have h: "\<forall>(now', b', ev)\<in>set otherEvents. \<not> completesInit 0 ev"
    by (simp add: otherEvents_def completesInit_def truthy_ids)
  have "ws_sessions (run otherEvents gateway0) 1 = Some 0"
    by (simp add: otherEvents_def step_def handleInit_def truthy_ids Let_def sendMessage_def
          gateway0_def)
  then show ?thesis
    using h audio_before_init [OF h, of 2 True "Inr clip"]
    by (simp add: sendMessage_def otherEvents_def)
qed

text \<open>
  The flag belongs to the session object of a connection, not to the user and friend:
  two connections initialized for the same user and friend each get a clip accepted,
  and two pipeline calls for that pair are in flight at once.
\<close>

theorem two_connections_counterexample:
  "inflight (run twoConnectionEvents gateway0) = [firstTurn, secondTurn]
   \<and> pending_userId firstTurn = pending_userId secondTurn
   \<and> pending_friendId firstTurn = pending_friendId secondTurn
   \<and> sessionKey (pending_userId firstTurn) (pending_friendId firstTurn) = sessionKey u1 f1"
  by (simp add: twoConnectionEvents_def step_def handleInit_def handleCompleteAudio_begin_def
        truthy_ids Let_def sendMessage_def setProcessing_def gateway0_def firstTurn_def
        secondTurn_def)

text \<open>
  A new init on a connection stores a new session object with the flag cleared, so a clip
  sent after it is accepted while the first pipeline call of the connection is in flight.
\<close>

lemma reinit_admits_second_turn:
  "inflight (run reinitEvents gateway0) = [firstTurn, secondTurn\<lparr>pending_ws := 0\<rparr>]"
proof -
  have "run reinitEvents gateway0 =
      step 3 True (Message 0 (Audio (Inr clip)))
        (step 2 True (Message 0 (Init (Some u1) (Some f1) None)) (run busyEvents gateway0))"
    by (simp add: reinitEvents_def busyEvents_def readyEvents_def)
  then show ?thesis
    by (simp add: busyGateway step_def handleInit_def handleCompleteAudio_begin_def truthy_ids
          Let_def sendMessage_def setProcessing_def secondTurn_def)
qed

end
